theory Spec2Isabelle
  imports Main
begin

section \<open>The fitness-studio booking API (app.py, seed\_data.py)\<close>

text \<open>
  A shallow embedding of the four Flask endpoints of \<^verbatim>\<open>app.py\<close> and of
  \<^verbatim>\<open>seed_data.py\<close>. The SQLite database is an explicit store holding the two
  tables in insertion order; every endpoint takes the store and returns its response
  together with the store it leaves behind (a rollback returns the store unchanged).

  Conventions of the model:
  \<^item> an instant is a wall-clock reading in Asia/Kolkata, an integer count of clock
    ticks; a Python \<^verbatim>\<open>datetime\<close> is such a reading with or without a \<^verbatim>\<open>tzinfo\<close>;
  \<^item> the clock readings of a request and the identifier that \<^verbatim>\<open>uuid.uuid4()\<close> draws
    are arguments of the endpoint;
  \<^item> strings are ASCII; the fields of a JSON body carry the types the docstrings
    give them (strings, and an integer for the capacity), and a field is \<open>None\<close>
    when its key is absent from the body;
  \<^item> of the library, \<^verbatim>\<open>datetime.fromisoformat\<close> and the set of keys that
    \<^verbatim>\<open>ZoneInfo\<close> accepts are parameters.
\<close>

subsection \<open>Database models\<close>

type_synonym wallclock = int

text \<open>
  The two \<^verbatim>\<open>DateTime\<close> columns hold readings only: SQLite keeps a datetime as its
  wall-clock text, without the offset.
\<close>

record ClassSchedule =
  cs_id :: string
  name :: string
  instructor :: string
  date_time :: wallclock
  capacity :: int

record Booking =
  bk_id :: string
  class_id :: string
  user_name :: string
  user_email :: string
  booking_time :: wallclock

record store =
  classes :: "ClassSchedule list"
  bookings :: "Booking list"

definition empty_store :: store where
  "empty_store = \<lparr>classes = [], bookings = []\<rparr>"

text \<open>The relationship \<^verbatim>\<open>cls.bookings\<close>: the rows of Booking whose foreign key is the class.\<close>

definition cls_bookings :: "store \<Rightarrow> ClassSchedule \<Rightarrow> Booking list" where
  "cls_bookings st cls = filter (\<lambda>b. class_id b = cs_id cls) (bookings st)"

text \<open>\<^verbatim>\<open>ClassSchedule.query.get(ident)\<close>: the row with that primary key, if any.\<close>

definition query_get :: "store \<Rightarrow> string \<Rightarrow> ClassSchedule option" where
  "query_get st ident = find (\<lambda>c. cs_id c = ident) (classes st)"

subsection \<open>Requests and responses\<close>

text \<open>
  A request carries its query string (\<^verbatim>\<open>request.args\<close>) and its JSON body
  (\<^verbatim>\<open>request.get_json()\<close>).
\<close>

record 'b request =
  args :: "string \<rightharpoonup> string"
  json :: 'b

record book_body =
  b_class_id :: "string option"
  b_user_name :: "string option"
  b_user_email :: "string option"

record class_body =
  c_name :: "string option"
  c_instructor :: "string option"
  c_date_time :: "string option"
  c_capacity :: "int option"

text \<open>
  The exceptions that the handlers' \<^verbatim>\<open>except Exception\<close> turns into a 500 response:
  \<^verbatim>\<open>get_or_404\<close> aborts with werkzeug's NotFound inside the \<^verbatim>\<open>try\<close> block, comparing
  a datetime without \<^verbatim>\<open>tzinfo\<close> to one with \<^verbatim>\<open>tzinfo\<close> raises TypeError, a commit
  that repeats a primary key raises IntegrityError, a commit of an integer outside
  SQLite's 64 bits raises OverflowError, and reading an attribute of a missing parent
  row raises AttributeError.
\<close>

datatype exn = NotFound | TypeError | IntegrityError | OverflowError | AttributeError

text \<open>
  The error responses, named after the rule that failed; \<open>error_message\<close> and
  \<open>status_code\<close> give what the handler returns for each (for an exception, the
  first words of its text).
\<close>

datatype error =
    MissingField | InvalidEmail | EmptyUserName | PastClass | ClassFull | AlreadyBooked
  | EmailRequired
  | InvalidClassType | InvalidDateFormat | PastSchedule | InvalidCapacity
  | Internal exn

fun error_message :: "error \<Rightarrow> string" where
  "error_message MissingField = ''Missing required fields''"
| "error_message InvalidEmail = ''Invalid email format''"
| "error_message EmptyUserName = ''User name cannot be empty''"
| "error_message PastClass = ''Cannot book a past class''"
| "error_message ClassFull = ''Class is fully booked''"
| "error_message AlreadyBooked = ''User already booked this class''"
| "error_message EmailRequired = ''Valid email parameter required''"
| "error_message InvalidClassType = ''Invalid class type. Must be Yoga, Zumba, or HIIT''"
| "error_message InvalidDateFormat =
     ''Invalid date format. Use ISO format (e.g., 2025-06-07T15:00:00)''"
| "error_message PastSchedule = ''Cannot schedule class in the past''"
| "error_message InvalidCapacity = ''Capacity must be positive''"
| "error_message (Internal NotFound) = ''404 Not Found''"
| "error_message (Internal TypeError) =
     ''can't compare offset-naive and offset-aware datetimes''"
| "error_message (Internal OverflowError) = ''Python int too large to convert to SQLite INTEGER''"
| "error_message (Internal IntegrityError) = ''IntegrityError''"
| "error_message (Internal AttributeError) = ''AttributeError''"

fun status_code :: "error \<Rightarrow> nat" where
  "status_code (Internal e) = 500"
| "status_code e = 400"

text \<open>
  The text of a formatted column value \<open>dt\<close>: \<open>Isoformat dt\<close> is \<^verbatim>\<open>dt.isoformat()\<close>
  and \<open>IsoformatIn tz dt\<close> is \<^verbatim>\<open>dt.astimezone(ZoneInfo(tz)).isoformat()\<close>.
\<close>

datatype iso_text = Isoformat wallclock | IsoformatIn string wallclock

record class_row =
  r_id :: string
  r_name :: string
  r_instructor :: string
  r_date_time :: iso_text
  r_capacity :: int
  r_available_slots :: int

record booking_row =
  q_id :: string
  q_class_id :: string
  q_class_name :: string
  q_date_time :: iso_text
  q_user_name :: string
  q_user_email :: string
  q_booking_time :: iso_text

subsection \<open>Datetimes\<close>

text \<open>
  A Python \<^verbatim>\<open>datetime\<close>: \<open>Aware\<close> when it carries a \<^verbatim>\<open>tzinfo\<close>, \<open>Naive\<close> when it
  does not. Every aware datetime of this program carries \<^verbatim>\<open>ZoneInfo("Asia/Kolkata")\<close>:
  \<^verbatim>\<open>datetime.now(ZoneInfo("Asia/Kolkata"))\<close> is \<open>Aware now\<close>, and line 246 attaches the
  zone to the parsed reading. An attribute read back from a \<^verbatim>\<open>DateTime\<close> column is
  \<open>Naive\<close>.
\<close>

datatype datetime = Naive wallclock | Aware wallclock

text \<open>
  \<^verbatim>\<open>a < b\<close> on datetimes: two of a kind compare by their readings; one of each kind
  raises TypeError.
\<close>

fun datetime_less :: "datetime \<Rightarrow> datetime \<Rightarrow> exn + bool" where
  "datetime_less (Naive a) (Naive b) = Inr (a < b)"
| "datetime_less (Aware a) (Aware b) = Inr (a < b)"
| "datetime_less (Naive a) (Aware b) = Inl TypeError"
| "datetime_less (Aware a) (Naive b) = Inl TypeError"

text \<open>The largest integer that an SQLite \<^verbatim>\<open>INTEGER\<close> column takes.\<close>

definition sqlite_max_int :: int where
  "sqlite_max_int = 2 ^ 63 - 1"

subsection \<open>Helper functions\<close>

text \<open>
  The pattern of \<open>validate_email\<close> is a sequence of character classes, each taken
  once or one or more times. \<open>re_match\<close> decides whether some way of matching the
  sequence consumes the whole string; at the end of the pattern, \<^verbatim>\<open>$\<close> accepts the
  end of the string and also a single final newline, as Python's does.
\<close>

datatype atom = One string | Many string

fun re_match :: "atom list \<Rightarrow> string \<Rightarrow> bool" where
  "re_match [] s = (s = [] \<or> s = [CHR 0x0A])"
| "re_match (One cs # ps) [] = False"
| "re_match (Many cs # ps) [] = False"
| "re_match (One cs # ps) (c # s) = (c \<in> set cs \<and> re_match ps s)"
| "re_match (Many cs # ps) (c # s) =
     (c \<in> set cs \<and> (re_match (Many cs # ps) s \<or> re_match ps s))"

definition word_chars :: string where
  "word_chars =
     ''abcdefghijklmnopqrstuvwxyz'' @ ''ABCDEFGHIJKLMNOPQRSTUVWXYZ'' @ ''0123456789'' @ ''_''"

definition email_pattern :: "atom list" where
  "email_pattern =
     [Many (word_chars @ ''.-''), One ''@'', Many (word_chars @ ''.-''), One ''.'',
      Many word_chars]"

definition validate_email :: "string \<Rightarrow> bool" where
  "validate_email email = re_match email_pattern email"

definition validate_class_type :: "string \<Rightarrow> bool" where
  "validate_class_type nm = (nm \<in> set [''Yoga'', ''Zumba'', ''HIIT''])"

text \<open>\<^verbatim>\<open>str.strip()\<close>: the ASCII characters for which \<^verbatim>\<open>str.isspace\<close> holds are removed at both ends.\<close>

definition isspace :: "char \<Rightarrow> bool" where
  "isspace c = (c \<in> set [CHR 0x09, CHR 0x0A, CHR 0x0B, CHR 0x0C, CHR 0x0D,
                          CHR 0x1C, CHR 0x1D, CHR 0x1E, CHR 0x1F, CHR 0x20])"

definition strip :: "string \<Rightarrow> string" where
  "strip s = rev (dropWhile isspace (rev (dropWhile isspace s)))"

text \<open>
  \<open>convert_to_timezone\<close>, called on a column value: \<^verbatim>\<open>ZoneInfo(tz_name)\<close> raises for a
  key outside \<open>zone_keys\<close>, and the \<^verbatim>\<open>except\<close> branch returns the unconverted text.
\<close>

definition convert_to_timezone :: "string set \<Rightarrow> wallclock \<Rightarrow> string \<Rightarrow> iso_text" where
  "convert_to_timezone zone_keys dt tz_name =
     (if tz_name \<in> zone_keys then IsoformatIn tz_name dt else Isoformat dt)"

text \<open>\<^verbatim>\<open>request.args.get('timezone', 'Asia/Kolkata')\<close>\<close>

definition tz_arg :: "'b request \<Rightarrow> string" where
  "tz_arg req = (case args req ''timezone'' of None \<Rightarrow> ''Asia/Kolkata'' | Some t \<Rightarrow> t)"

subsection \<open>GET /api/classes\<close>

text \<open>
  The filter of line 93 is evaluated by SQLite, on the stored text of the column and
  the text of \<^verbatim>\<open>now\<close> in the same format: it compares the two readings.
\<close>

definition class_to_row :: "string set \<Rightarrow> string \<Rightarrow> store \<Rightarrow> ClassSchedule \<Rightarrow> class_row" where
  "class_to_row zone_keys tz_name st cls =
     \<lparr>r_id = cs_id cls, r_name = name cls, r_instructor = instructor cls,
      r_date_time = convert_to_timezone zone_keys (date_time cls) tz_name,
      r_capacity = capacity cls,
      r_available_slots = capacity cls - int (length (cls_bookings st cls))\<rparr>"

definition get_classes ::
  "string set \<Rightarrow> wallclock \<Rightarrow> 'b request \<Rightarrow> store \<Rightarrow> error + class_row list" where
  "get_classes zone_keys now req st =
     (let tz_name = tz_arg req;
          upcoming = filter (\<lambda>c. date_time c \<ge> now) (classes st)
      in Inr (map (class_to_row zone_keys tz_name st) upcoming))"

subsection \<open>POST /api/book\<close>

text \<open>
  Lines 158 to 164: the new row is added to the session and committed; \<open>stamp\<close> is
  the clock reading that the default of \<^verbatim>\<open>booking_time\<close> takes. The commit fails only on
  a repeated primary key.
\<close>

definition commit_booking ::
  "wallclock \<Rightarrow> string \<Rightarrow> string \<Rightarrow> string \<Rightarrow> string \<Rightarrow> store \<Rightarrow> (error + Booking) \<times> store" where
  "commit_booking stamp uuid cid uname email st =
     (let new_booking = \<lparr>bk_id = uuid, class_id = cid, user_name = uname,
                          user_email = email, booking_time = stamp\<rparr>
      in if uuid \<in> set (map bk_id (bookings st)) then (Inl (Internal IntegrityError), st)
         else (Inr new_booking, st\<lparr>bookings := bookings st @ [new_booking]\<rparr>))"

text \<open>
  Lines 147 to 164, for the class \<open>cls\<close> that line 142 found: the capacity check, the
  duplicate check and the commit.
\<close>

definition admit_booking ::
  "wallclock \<Rightarrow> string \<Rightarrow> string \<Rightarrow> string \<Rightarrow> string \<Rightarrow> ClassSchedule \<Rightarrow> store
     \<Rightarrow> (error + Booking) \<times> store" where
  "admit_booking stamp uuid cid uname email cls st =
     (if int (length (cls_bookings st cls)) \<ge> capacity cls then (Inl ClassFull, st)
      else if find (\<lambda>b. class_id b = cid \<and> user_email b = email) (bookings st) \<noteq> None
        then (Inl AlreadyBooked, st)
      else commit_booking stamp uuid cid uname email st)"

text \<open>
  The handler. At line 143 \<^verbatim>\<open>cls.date_time\<close> has been read back from its column and
  \<^verbatim>\<open>datetime.now(ZoneInfo("Asia/Kolkata"))\<close> carries its zone; an exception is caught at
  line 173, the session rolled back and a 500 returned.
\<close>

definition create_booking ::
  "wallclock \<Rightarrow> wallclock \<Rightarrow> string \<Rightarrow> book_body request \<Rightarrow> store
     \<Rightarrow> (error + Booking) \<times> store" where
  "create_booking now stamp uuid req st =
     (case b_class_id (json req) of None \<Rightarrow> (Inl MissingField, st) | Some cid \<Rightarrow>
     (case b_user_name (json req) of None \<Rightarrow> (Inl MissingField, st) | Some uname \<Rightarrow>
     (case b_user_email (json req) of None \<Rightarrow> (Inl MissingField, st) | Some email \<Rightarrow>
        if \<not> validate_email email then (Inl InvalidEmail, st)
        else if strip uname = [] then (Inl EmptyUserName, st)
        else (case query_get st cid of
          None \<Rightarrow> (Inl (Internal NotFound), st)
        | Some cls \<Rightarrow>
            (case datetime_less (Naive (date_time cls)) (Aware now) of
               Inl e \<Rightarrow> (Inl (Internal e), st)
             | Inr past \<Rightarrow>
                 if past then (Inl PastClass, st)
                 else admit_booking stamp uuid cid uname email cls st)))))"

subsection \<open>GET /api/bookings\<close>

definition booking_to_row ::
  "string set \<Rightarrow> string \<Rightarrow> store \<Rightarrow> Booking \<Rightarrow> exn + booking_row" where
  "booking_to_row zone_keys tz_name st b =
     (case query_get st (class_id b) of
        None \<Rightarrow> Inl AttributeError
      | Some cls \<Rightarrow> Inr
          \<lparr>q_id = bk_id b, q_class_id = class_id b, q_class_name = name cls,
           q_date_time = convert_to_timezone zone_keys (date_time cls) tz_name,
           q_user_name = user_name b, q_user_email = user_email b,
           q_booking_time = Isoformat (booking_time b)\<rparr>)"

fun collect_rows :: "(exn + 'a) list \<Rightarrow> exn + 'a list" where
  "collect_rows [] = Inr []"
| "collect_rows (Inl e # rs) = Inl e"
| "collect_rows (Inr r # rs) = (case collect_rows rs of Inl e \<Rightarrow> Inl e | Inr xs \<Rightarrow> Inr (r # xs))"

definition get_bookings ::
  "string set \<Rightarrow> 'b request \<Rightarrow> store \<Rightarrow> error + booking_row list" where
  "get_bookings zone_keys req st =
     (case args req ''email'' of
        None \<Rightarrow> Inl EmailRequired
      | Some email \<Rightarrow>
          if email = [] \<or> \<not> validate_email email then Inl EmailRequired
          else (case collect_rows (map (booking_to_row zone_keys (tz_arg req) st)
                                       (filter (\<lambda>b. user_email b = email) (bookings st))) of
                  Inl e \<Rightarrow> Inl (Internal e)
                | Inr rows \<Rightarrow> Inr rows))"

subsection \<open>POST /api/classes\<close>

text \<open>
  The handler. Line 246 attaches the zone to the parsed reading, so line 247 compares
  two aware datetimes. The commit of lines 261 and 262 fails on a capacity that SQLite
  cannot take as an integer, and on a repeated primary key.
\<close>

definition create_class ::
  "(string \<Rightarrow> wallclock option) \<Rightarrow> wallclock \<Rightarrow> string \<Rightarrow> class_body request \<Rightarrow> store
     \<Rightarrow> (error + ClassSchedule) \<times> store" where
  "create_class fromisoformat now uuid req st =
     (case c_name (json req) of None \<Rightarrow> (Inl MissingField, st) | Some nm \<Rightarrow>
     (case c_instructor (json req) of None \<Rightarrow> (Inl MissingField, st) | Some ins \<Rightarrow>
     (case c_date_time (json req) of None \<Rightarrow> (Inl MissingField, st) | Some dts \<Rightarrow>
     (case c_capacity (json req) of None \<Rightarrow> (Inl MissingField, st) | Some cap \<Rightarrow>
        if \<not> validate_class_type nm then (Inl InvalidClassType, st)
        else (case fromisoformat dts of
          None \<Rightarrow> (Inl InvalidDateFormat, st)
        | Some dt \<Rightarrow>
            (case datetime_less (Aware dt) (Aware now) of
               Inl e \<Rightarrow> (Inl (Internal e), st)
             | Inr past \<Rightarrow>
                 if past then (Inl PastSchedule, st)
                 else if cap \<le> 0 then (Inl InvalidCapacity, st)
                 else let new_class = \<lparr>cs_id = uuid, name = nm, instructor = ins,
                                        date_time = dt, capacity = cap\<rparr>
                      in if sqlite_max_int < cap then (Inl (Internal OverflowError), st)
                         else if uuid \<in> set (map cs_id (classes st))
                         then (Inl (Internal IntegrityError), st)
                         else (Inr new_class, st\<lparr>classes := classes st @ [new_class]\<rparr>)))))))"

subsection \<open>seed\_data.py\<close>

text \<open>\<^verbatim>\<open>seed_data()\<close> drops both tables and stores one sample class.\<close>

definition seed_data :: "wallclock \<Rightarrow> string \<Rightarrow> store" where
  "seed_data june8_10am uuid =
     \<lparr>classes = [\<lparr>cs_id = uuid, name = ''Yoga'', instructor = ''Jane Doe'',
                   date_time = june8_10am, capacity = 10\<rparr>],
      bookings = []\<rparr>"

subsection \<open>Reachable stores and their invariants\<close>

text \<open>
  The stores that whole requests, served one after the other, leave behind, starting
  from the empty database.
\<close>

inductive reachable :: "store \<Rightarrow> bool" where
  reach_init: "reachable empty_store"
| reach_seed: "reachable (seed_data d uuid)"
| reach_class: "reachable st \<Longrightarrow> reachable (snd (create_class fromisoformat now uuid req st))"
| reach_book: "reachable st \<Longrightarrow> reachable (snd (create_booking now stamp uuid req st))"



text \<open>A row of a listing without its formatted start time.\<close>

definition class_row_rest :: "class_row \<Rightarrow> string \<times> string \<times> string \<times> int \<times> int" where
  "class_row_rest r = (r_id r, r_name r, r_instructor r, r_capacity r, r_available_slots r)"

definition booking_row_rest ::
  "booking_row \<Rightarrow> string \<times> string \<times> string \<times> string \<times> string \<times> iso_text" where
  "booking_row_rest r =
     (q_id r, q_class_id r, q_class_name r, q_user_name r, q_user_email r, q_booking_time r)"

text \<open>Two requests that differ at most in the \<^verbatim>\<open>timezone\<close> query parameter.\<close>

definition same_but_timezone :: "'b request \<Rightarrow> 'b request \<Rightarrow> bool" where
  "same_but_timezone r r' \<longleftrightarrow>
     json r = json r' \<and> (\<forall>k. k \<noteq> ''timezone'' \<longrightarrow> args r k = args r' k)"

subsection \<open>Sample data\<close>

text \<open>
  The sample rows and requests of \<^verbatim>\<open>test_api.py\<close>, used below to run the endpoints:
  the Yoga class of Jane Doe with capacity 10 (starting at tick 10), alone and with the
  booking of John that \<^verbatim>\<open>test_get_bookings\<close> inserts; the same class with the capacity 1
  and the booking of Jane that \<^verbatim>\<open>test_create_booking_overbooked\<close> inserts; and a date
  parser that knows the one date string of the tests.
\<close>

definition sample_class :: ClassSchedule where
  "sample_class = \<lparr>cs_id = ''c1'', name = ''Yoga'', instructor = ''Jane Doe'',
                    date_time = 10, capacity = 10\<rparr>"

definition john_booking :: Booking where
  "john_booking = \<lparr>bk_id = ''b1'', class_id = ''c1'', user_name = ''John Doe'',
                    user_email = ''john@example.com'', booking_time = 3\<rparr>"

definition sample_store :: store where
  "sample_store = \<lparr>classes = [sample_class], bookings = []\<rparr>"

definition booked_store :: store where
  "booked_store = \<lparr>classes = [sample_class], bookings = [john_booking]\<rparr>"





definition book_request :: "string \<Rightarrow> string \<Rightarrow> string \<Rightarrow> book_body request" where
  "book_request cid uname email =
     \<lparr>args = Map.empty,
      json = \<lparr>b_class_id = Some cid, b_user_name = Some uname, b_user_email = Some email\<rparr>\<rparr>"

definition class_request :: "string \<Rightarrow> string \<Rightarrow> string \<Rightarrow> int \<Rightarrow> class_body request" where
  "class_request nm ins dts cap =
     \<lparr>args = Map.empty,
      json = \<lparr>c_name = Some nm, c_instructor = Some ins, c_date_time = Some dts,
              c_capacity = Some cap\<rparr>\<rparr>"

definition get_request :: "(string \<times> string) list \<Rightarrow> unit request" where
  "get_request query = \<lparr>args = map_of query, json = ()\<rparr>"

definition sample_fromisoformat :: "string \<Rightarrow> wallclock option" where
  "sample_fromisoformat s = (if s = ''2025-06-08T10:00:00'' then Some 10 else None)"

section \<open>Properties\<close>

subsection \<open>What an endpoint leaves in the store\<close>

lemma commit_booking_snd:
  "snd (commit_booking stamp uuid cid uname email st) =
     (case fst (commit_booking stamp uuid cid uname email st) of
        Inl e \<Rightarrow> st | Inr b \<Rightarrow> st\<lparr>bookings := bookings st @ [b]\<rparr>)"
  by (simp add: commit_booking_def Let_def)






lemma create_booking_stored_class:
  assumes "b_class_id (json req) = Some cid" and "b_user_name (json req) = Some uname"
    and "b_user_email (json req) = Some email"
    and "validate_email email" and "strip uname \<noteq> []"
    and "query_get st cid = Some cls"
  shows "create_booking now stamp uuid req st = (Inl (Internal TypeError), st)"
  using assms by (simp add: create_booking_def)


lemma create_class_Inr:
  assumes "fst (create_class f now uuid req st) = Inr c"
  shows "0 < capacity c" and "cs_id c \<notin> set (map cs_id (classes st))"
    and "validate_class_type (name c)" and "\<not> date_time c < now"
    and "c_instructor (json req) = Some (instructor c)"
    and "c_name (json req) = Some (name c)"
    and "c_capacity (json req) = Some (capacity c)"
    and "capacity c \<le> sqlite_max_int"
  using assms
  by (auto simp: create_class_def Let_def split: option.splits if_splits)

lemma create_class_checked:
  assumes "c_name (json req) = Some nm" and "c_instructor (json req) = Some ins"
    and "c_date_time (json req) = Some dts" and "c_capacity (json req) = Some cap"
  shows "create_class f now uuid req st =
     (if \<not> validate_class_type nm then (Inl InvalidClassType, st)
      else case f dts of
        None \<Rightarrow> (Inl InvalidDateFormat, st)
      | Some dt \<Rightarrow>
          if dt < now then (Inl PastSchedule, st)
          else if cap \<le> 0 then (Inl InvalidCapacity, st)
          else if sqlite_max_int < cap then (Inl (Internal OverflowError), st)
          else if uuid \<in> set (map cs_id (classes st)) then (Inl (Internal IntegrityError), st)
          else (Inr \<lparr>cs_id = uuid, name = nm, instructor = ins, date_time = dt, capacity = cap\<rparr>,
                st\<lparr>classes := classes st @
                  [\<lparr>cs_id = uuid, name = nm, instructor = ins, date_time = dt,
                    capacity = cap\<rparr>]\<rparr>))"
  using assms by (simp add: create_class_def Let_def split: option.splits)














subsection \<open>Listings\<close>

lemma get_classes_rest:
  "map_sum id (map class_row_rest) (get_classes zone_keys now req st) =
   Inr (map (\<lambda>c. (cs_id c, name c, instructor c, capacity c,
                    capacity c - int (length (cls_bookings st c))))
          (filter (\<lambda>c. now \<le> date_time c) (classes st)))"
  by (simp add: get_classes_def Let_def class_row_rest_def class_to_row_def comp_def)

lemma collect_rows_rest:
  "map_sum id (map booking_row_rest) (collect_rows (map (booking_to_row zone_keys tz st) bs)) =
   map_sum id (map booking_row_rest) (collect_rows (map (booking_to_row zone_keys tz' st) bs))"
proof (induction bs)
  case Nil
  show ?case by simp
next
  case (Cons b bs)
  show ?case
  proof (cases "query_get st (class_id b)")
    case None
    then show ?thesis by (simp add: booking_to_row_def)
  next
    case (Some cls)
    with Cons show ?thesis
      by (auto simp: booking_to_row_def booking_row_rest_def split: sum.splits)
  qed
qed

lemma get_bookings_rest:
  assumes "args req ''email'' = args req' ''email''"
  shows "map_sum id (map booking_row_rest) (get_bookings zone_keys req st) =
         map_sum id (map booking_row_rest) (get_bookings zone_keys req' st)"
proof (cases "args req ''email''")
  case None
  with assms show ?thesis by (simp add: get_bookings_def)
next
  case (Some email)
  show ?thesis
  proof (cases "email = [] \<or> \<not> validate_email email")
    case True
    with Some assms show ?thesis by (auto simp: get_bookings_def)
  next
    case False
    let ?bs = "filter (\<lambda>b. user_email b = email) (bookings st)"
    from collect_rows_rest[of zone_keys "tz_arg req" st ?bs "tz_arg req'"]
    show ?thesis
      using Some assms False
      by (auto simp: get_bookings_def split: sum.splits)
  qed
qed




subsection \<open>Sample stores are reachable\<close>



subsection \<open>Capacity\<close>




subsection \<open>The commit of a booking\<close>




subsection \<open>Duplicates\<close>




subsection \<open>Booking a stored class\<close>

text \<open>
  C4 does not hold of the code. Line 143 compares \<^verbatim>\<open>cls.date_time\<close>, read back from its
  column without \<^verbatim>\<open>tzinfo\<close>, with the aware \<^verbatim>\<open>datetime.now(ZoneInfo("Asia/Kolkata"))\<close>. For
  a request that has its three fields, a valid email and a name that is not blank, and
  whose class is stored, the comparison raises TypeError and the handler answers 500
  and stores nothing, whether the class starts before, at or after \<open>now\<close>: neither
  PastClass nor a booking. (\<^verbatim>\<open>test_create_booking_past_class\<close> expects the 400 of
  PastClass and \<^verbatim>\<open>test_create_booking\<close> the 201 of a booking.)
\<close>

theorem booking_of_stored_class_raises:
  assumes "b_class_id (json req) = Some cid" and "b_user_name (json req) = Some uname"
    and "b_user_email (json req) = Some email"
    and "validate_email email" and "strip uname \<noteq> []"
    and "query_get st cid = Some cls"
  shows "create_booking now stamp uuid req st = (Inl (Internal TypeError), st)"
  using assms by (rule create_booking_stored_class)

theorem booking_of_stored_class_raises_witness:
  "validate_email ''john@example.com'' \<and> strip ''John Doe'' \<noteq> [] \<and>
   query_get sample_store ''c1'' = Some sample_class \<and> date_time sample_class = 10 \<and>
   create_booking 9 9 ''b1'' (book_request ''c1'' ''John Doe'' ''john@example.com'')
     sample_store = (Inl (Internal TypeError), sample_store) \<and>
   create_booking 10 10 ''b1'' (book_request ''c1'' ''John Doe'' ''john@example.com'')
     sample_store = (Inl (Internal TypeError), sample_store) \<and>
   create_booking 11 11 ''b1'' (book_request ''c1'' ''John Doe'' ''john@example.com'')
     sample_store = (Inl (Internal TypeError), sample_store)"
proof -
  let ?req = "book_request ''c1'' ''John Doe'' ''john@example.com''"
  have f: "b_class_id (json ?req) = Some ''c1''" "b_user_name (json ?req) = Some ''John Doe''"
    "b_user_email (json ?req) = Some ''john@example.com''"
    by (simp_all add: book_request_def)
  have v: "validate_email ''john@example.com''" by code_simp
  have s: "strip ''John Doe'' \<noteq> []" by code_simp
  have q: "query_get sample_store ''c1'' = Some sample_class" by code_simp
  have d: "date_time sample_class = 10" by (simp add: sample_class_def)
  note t = booking_of_stored_class_raises[OF f v s q]
  from v s q d t[of 9 9 "''b1''"] t[of 10 10 "''b1''"] t[of 11 11 "''b1''"]
  show ?thesis by blast
qed

subsection \<open>The order of the checks of create\_class\<close>

text \<open>
  C5, as the specification states it, fails: \<open>create_class\<close> compares the start time
  with \<open>now\<close> (line 247) before it looks at the capacity (line 251). A Yoga class with
  capacity 0 and a start time in the past is answered with PastSchedule.
\<close>

theorem create_class_order_counterexample:
  "validate_class_type ''Yoga'' \<and> (0::int) \<le> 0 \<and>
   sample_fromisoformat ''2025-06-08T10:00:00'' = Some 10 \<and> (10::int) < 11 \<and>
   create_class sample_fromisoformat 11 ''c2''
     (class_request ''Yoga'' ''Jane Doe'' ''2025-06-08T10:00:00'' 0) empty_store =
     (Inl PastSchedule, empty_store)"
  by code_simp

text \<open>
  C5, amended. For a request that has its four fields, \<open>create_class\<close> validates in
  the order class type, date format, start time, capacity: a name outside the allowed
  types gives InvalidClassType; otherwise a date that does not parse gives
  InvalidDateFormat; otherwise a start time before \<open>now\<close> gives PastSchedule, whatever
  the capacity; otherwise a capacity of 0 or less gives InvalidCapacity.
\<close>

theorem create_class_validation_order:
  assumes "c_name (json req) = Some nm" and "c_instructor (json req) = Some ins"
    and "c_date_time (json req) = Some dts" and "c_capacity (json req) = Some cap"
  shows "(\<not> validate_class_type nm \<longrightarrow>
            create_class f now uuid req st = (Inl InvalidClassType, st)) \<and>
         (validate_class_type nm \<and> f dts = None \<longrightarrow>
            create_class f now uuid req st = (Inl InvalidDateFormat, st)) \<and>
         (validate_class_type nm \<and> f dts = Some dt \<and> dt < now \<longrightarrow>
            create_class f now uuid req st = (Inl PastSchedule, st)) \<and>
         (validate_class_type nm \<and> f dts = Some dt \<and> now \<le> dt \<and> cap \<le> 0 \<longrightarrow>
            create_class f now uuid req st = (Inl InvalidCapacity, st))"
  unfolding create_class_checked[OF assms] by simp

theorem create_class_validation_order_witness:
  "create_class sample_fromisoformat 11 ''c2''
     (class_request ''Pilates'' ''Jane Doe'' ''yesterday'' 0) empty_store =
     (Inl InvalidClassType, empty_store) \<and>
   create_class sample_fromisoformat 11 ''c2''
     (class_request ''Yoga'' ''Jane Doe'' ''yesterday'' 0) empty_store =
     (Inl InvalidDateFormat, empty_store) \<and>
   create_class sample_fromisoformat 11 ''c2''
     (class_request ''Yoga'' ''Jane Doe'' ''2025-06-08T10:00:00'' 0) empty_store =
     (Inl PastSchedule, empty_store) \<and>
   create_class sample_fromisoformat 9 ''c2''
     (class_request ''Yoga'' ''Jane Doe'' ''2025-06-08T10:00:00'' 0) empty_store =
     (Inl InvalidCapacity, empty_store)"
proof -
  have y: "validate_class_type ''Yoga''" and p: "\<not> validate_class_type ''Pilates''"
    by code_simp+
  have d: "sample_fromisoformat ''2025-06-08T10:00:00'' = Some 10"
    and e: "sample_fromisoformat ''yesterday'' = None"
    by code_simp+
  have f: "c_name (json (class_request n i s c)) = Some n"
    "c_instructor (json (class_request n i s c)) = Some i"
    "c_date_time (json (class_request n i s c)) = Some s"
    "c_capacity (json (class_request n i s c)) = Some c" for n i s c
    by (simp_all add: class_request_def)
  from create_class_validation_order[where req = "class_request ''Pilates'' ''Jane Doe'' ''yesterday'' 0"
      and nm = "''Pilates''" and ins = "''Jane Doe''" and dts = "''yesterday''" and cap = 0
      and f = sample_fromisoformat and now = 11 and uuid = "''c2''" and st = empty_store] p
  have 1: "create_class sample_fromisoformat 11 ''c2''
     (class_request ''Pilates'' ''Jane Doe'' ''yesterday'' 0) empty_store =
     (Inl InvalidClassType, empty_store)" by (simp add: f)
  from create_class_validation_order[where req = "class_request ''Yoga'' ''Jane Doe'' ''yesterday'' 0"
      and nm = "''Yoga''" and ins = "''Jane Doe''" and dts = "''yesterday''" and cap = 0
      and f = sample_fromisoformat and now = 11 and uuid = "''c2''" and st = empty_store] y e
  have 2: "create_class sample_fromisoformat 11 ''c2''
     (class_request ''Yoga'' ''Jane Doe'' ''yesterday'' 0) empty_store =
     (Inl InvalidDateFormat, empty_store)" by (simp add: f)
  from create_class_validation_order[where
      req = "class_request ''Yoga'' ''Jane Doe'' ''2025-06-08T10:00:00'' 0"
      and nm = "''Yoga''" and ins = "''Jane Doe''" and dts = "''2025-06-08T10:00:00''"
      and cap = 0 and f = sample_fromisoformat and now = 11 and uuid = "''c2''"
      and st = empty_store and dt = 10] y d
  have 3: "create_class sample_fromisoformat 11 ''c2''
     (class_request ''Yoga'' ''Jane Doe'' ''2025-06-08T10:00:00'' 0) empty_store =
     (Inl PastSchedule, empty_store)" by (simp add: f)
  from create_class_validation_order[where
      req = "class_request ''Yoga'' ''Jane Doe'' ''2025-06-08T10:00:00'' 0"
      and nm = "''Yoga''" and ins = "''Jane Doe''" and dts = "''2025-06-08T10:00:00''"
      and cap = 0 and f = sample_fromisoformat and now = 9 and uuid = "''c2''"
      and st = empty_store and dt = 10] y d
  have 4: "create_class sample_fromisoformat 9 ''c2''
     (class_request ''Yoga'' ''Jane Doe'' ''2025-06-08T10:00:00'' 0) empty_store =
     (Inl InvalidCapacity, empty_store)" by (simp add: f)
  from 1 2 3 4 show ?thesis by blast
qed

subsection \<open>Creating a class that starts now\<close>

text \<open>
  C6, as the specification states it, fails: the comparison of line 247 is strict, so a
  class whose start time equals \<open>now\<close> is accepted and stored.
\<close>

theorem create_class_now_counterexample:
  "validate_class_type ''Yoga'' \<and> (0::int) < 10 \<and>
   sample_fromisoformat ''2025-06-08T10:00:00'' = Some 10 \<and>
   create_class sample_fromisoformat 10 ''c1''
     (class_request ''Yoga'' ''Jane Doe'' ''2025-06-08T10:00:00'' 10) empty_store =
     (Inr sample_class, sample_store)"
  by code_simp

text \<open>
  C6, amended. For a request with an allowed name, a date that parses and a positive
  capacity, \<open>create_class\<close> answers PastSchedule exactly when the start time is
  strictly before \<open>now\<close>; a start time equal to \<open>now\<close> is accepted and the class is
  stored, given a new identifier and a capacity that SQLite can take as an integer.
\<close>

theorem create_class_temporal_boundary:
  assumes "c_name (json req) = Some nm" and "c_instructor (json req) = Some ins"
    and "c_date_time (json req) = Some dts" and "c_capacity (json req) = Some cap"
    and "validate_class_type nm" and "f dts = Some dt" and "0 < cap"
  shows "(fst (create_class f now uuid req st) = Inl PastSchedule \<longleftrightarrow> dt < now) \<and>
         (dt = now \<and> cap \<le> sqlite_max_int \<and> uuid \<notin> set (map cs_id (classes st)) \<longrightarrow>
          create_class f now uuid req st =
            (Inr \<lparr>cs_id = uuid, name = nm, instructor = ins, date_time = dt, capacity = cap\<rparr>,
             st\<lparr>classes := classes st @
               [\<lparr>cs_id = uuid, name = nm, instructor = ins, date_time = dt,
                 capacity = cap\<rparr>]\<rparr>))"
  unfolding create_class_checked[OF assms(1-4)] using assms(5-7) by simp

theorem create_class_temporal_boundary_witness:
  "validate_class_type ''Yoga'' \<and> sample_fromisoformat ''2025-06-08T10:00:00'' = Some 10 \<and>
   fst (create_class sample_fromisoformat 11 ''c1''
     (class_request ''Yoga'' ''Jane Doe'' ''2025-06-08T10:00:00'' 10) empty_store) =
     Inl PastSchedule \<and>
   fst (create_class sample_fromisoformat 10 ''c1''
     (class_request ''Yoga'' ''Jane Doe'' ''2025-06-08T10:00:00'' 10) empty_store) =
     Inr \<lparr>cs_id = ''c1'', name = ''Yoga'', instructor = ''Jane Doe'', date_time = 10,
           capacity = 10\<rparr>"
proof -
  let ?req = "class_request ''Yoga'' ''Jane Doe'' ''2025-06-08T10:00:00'' 10"
  have f: "c_name (json ?req) = Some ''Yoga''" "c_instructor (json ?req) = Some ''Jane Doe''"
    "c_date_time (json ?req) = Some ''2025-06-08T10:00:00''" "c_capacity (json ?req) = Some 10"
    by (simp_all add: class_request_def)
  have y: "validate_class_type ''Yoga''" by code_simp
  have d: "sample_fromisoformat ''2025-06-08T10:00:00'' = Some 10" by code_simp
  have k: "''c1'' \<notin> set (map cs_id (classes empty_store))" by (simp add: empty_store_def)
  have b: "(10::int) \<le> sqlite_max_int" by (simp add: sqlite_max_int_def)
  from create_class_temporal_boundary[where req = ?req and nm = "''Yoga''"
      and ins = "''Jane Doe''" and dts = "''2025-06-08T10:00:00''" and cap = 10
      and f = sample_fromisoformat and dt = 10 and now = 11 and uuid = "''c1''"
      and st = empty_store] f y d
  have 1: "fst (create_class sample_fromisoformat 11 ''c1'' ?req empty_store) = Inl PastSchedule"
    by simp
  from create_class_temporal_boundary[where req = ?req and nm = "''Yoga''"
      and ins = "''Jane Doe''" and dts = "''2025-06-08T10:00:00''" and cap = 10
      and f = sample_fromisoformat and dt = 10 and now = 10 and uuid = "''c1''"
      and st = empty_store] f y d k b
  have 2: "fst (create_class sample_fromisoformat 10 ''c1'' ?req empty_store) =
     Inr \<lparr>cs_id = ''c1'', name = ''Yoga'', instructor = ''Jane Doe'', date_time = 10,
           capacity = 10\<rparr>"
    by simp
  from y d 1 2 show ?thesis by blast
qed

subsection \<open>Missing fields of a booking request\<close>

text \<open>
  C7, as the specification states it, fails: the first check of \<open>create_booking\<close>
  (line 130) asks only whether the three keys are present. A name of three blanks gets
  as far as the name check and is answered with EmptyUserName; an empty class id gets as
  far as the lookup, whose NotFound the handler turns into a 500 response; an empty email
  fails the email check.
\<close>

theorem blank_field_counterexample:
  "strip ''   '' = [] \<and>
   create_booking 4 5 ''b2'' (book_request ''c1'' ''   '' ''jane@example.com'') sample_store =
     (Inl EmptyUserName, sample_store) \<and>
   create_booking 4 5 ''b2'' (book_request [] ''Jane Doe'' ''jane@example.com'') sample_store =
     (Inl (Internal NotFound), sample_store) \<and>
   create_booking 4 5 ''b2'' (book_request ''c1'' ''Jane Doe'' []) sample_store =
     (Inl InvalidEmail, sample_store)"
  by code_simp

text \<open>
  C7, amended. \<open>create_booking\<close> answers MissingField exactly when one of class id,
  user name and user email is absent from the body, and then it leaves the store as it
  is, whatever the store holds. A name that is present but blank after stripping is
  answered with EmptyUserName once the email has passed its check.
\<close>

theorem missing_field_iff_absent:
  "(fst (create_booking now stamp uuid req st) = Inl MissingField \<longleftrightarrow>
      b_class_id (json req) = None \<or> b_user_name (json req) = None \<or>
      b_user_email (json req) = None) \<and>
   (b_class_id (json req) = None \<or> b_user_name (json req) = None \<or>
      b_user_email (json req) = None \<longrightarrow>
      create_booking now stamp uuid req st = (Inl MissingField, st)) \<and>
   (b_class_id (json req) = Some cid \<and> b_user_name (json req) = Some uname \<and>
    b_user_email (json req) = Some email \<and> validate_email email \<and> strip uname = [] \<longrightarrow>
      create_booking now stamp uuid req st = (Inl EmptyUserName, st))"
  by (auto simp: create_booking_def split: option.splits)

theorem missing_field_iff_absent_witness:
  "create_booking 4 5 ''b2''
     \<lparr>args = Map.empty,
      json = \<lparr>b_class_id = Some ''c1'', b_user_name = None,
              b_user_email = Some ''jane@example.com''\<rparr>\<rparr> sample_store =
     (Inl MissingField, sample_store) \<and>
   fst (create_booking 4 5 ''b2'' (book_request ''c1'' ''   '' ''jane@example.com'') sample_store)
     \<noteq> Inl MissingField \<and>
   create_booking 4 5 ''b2'' (book_request ''c1'' ''   '' ''jane@example.com'') sample_store =
     (Inl EmptyUserName, sample_store)"
proof -
  let ?r = "\<lparr>args = Map.empty,
      json = \<lparr>b_class_id = Some ''c1'', b_user_name = None,
              b_user_email = Some ''jane@example.com''\<rparr>\<rparr> :: book_body request"
  let ?b = "book_request ''c1'' ''   '' ''jane@example.com''"
  have v: "validate_email ''jane@example.com''" by code_simp
  have s: "strip ''   '' = []" by code_simp
  from missing_field_iff_absent[where req = ?r and now = 4 and stamp = 5 and uuid = "''b2''"
      and st = sample_store]
  have 1: "create_booking 4 5 ''b2'' ?r sample_store = (Inl MissingField, sample_store)"
    by simp
  from missing_field_iff_absent[where req = ?b and now = 4 and stamp = 5 and uuid = "''b2''"
      and st = sample_store and cid = "''c1''" and uname = "''   ''"
      and email = "''jane@example.com''"] v s
  have 2: "fst (create_booking 4 5 ''b2'' ?b sample_store) \<noteq> Inl MissingField"
    and 3: "create_booking 4 5 ''b2'' ?b sample_store = (Inl EmptyUserName, sample_store)"
    by (simp_all add: book_request_def)
  from 1 2 3 show ?thesis by blast
qed

subsection \<open>The instructor of a class\<close>

text \<open>
  C9, as the specification states it, fails: \<open>create_class\<close> never looks at the
  content of the instructor. A request with the empty string as instructor is accepted,
  and the store it leaves, which is reachable, holds a class whose instructor is empty.
\<close>

theorem empty_instructor_counterexample:
  "create_class sample_fromisoformat 2 ''c1''
     (class_request ''Yoga'' [] ''2025-06-08T10:00:00'' 10) empty_store =
     (Inr (sample_class\<lparr>instructor := []\<rparr>),
      \<lparr>classes = [sample_class\<lparr>instructor := []\<rparr>], bookings = []\<rparr>) \<and>
   reachable \<lparr>classes = [sample_class\<lparr>instructor := []\<rparr>], bookings = []\<rparr> \<and>
   instructor (sample_class\<lparr>instructor := []\<rparr>) = []"
proof -
  have 1: "create_class sample_fromisoformat 2 ''c1''
     (class_request ''Yoga'' [] ''2025-06-08T10:00:00'' 10) empty_store =
     (Inr (sample_class\<lparr>instructor := []\<rparr>),
      \<lparr>classes = [sample_class\<lparr>instructor := []\<rparr>], bookings = []\<rparr>)"
    by code_simp
  have "reachable (snd (create_class sample_fromisoformat 2 ''c1''
     (class_request ''Yoga'' [] ''2025-06-08T10:00:00'' 10) empty_store))"
    by (rule reach_class[OF reach_init])
  with 1 show ?thesis by simp
qed

text \<open>
  C9, amended. \<open>create_class\<close> requires the instructor field to be present and
  nothing more: every class it accepts carries the instructor string of the request as
  given, and a request whose other fields are valid (an allowed name, a date that parses
  and is not before \<open>now\<close>, a positive capacity that SQLite can take as an integer, a
  new identifier) is accepted whatever its instructor string is, the empty string
  included.
\<close>

theorem instructor_stored_as_given:
  "(fst (create_class f now uuid req st) = Inr c \<longrightarrow>
      c_instructor (json req) = Some (instructor c)) \<and>
   (c_name (json req) = Some nm \<and> validate_class_type nm \<and>
    c_instructor (json req) = Some ins \<and>
    c_date_time (json req) = Some dts \<and> f dts = Some dt \<and> now \<le> dt \<and>
    c_capacity (json req) = Some cap \<and> 0 < cap \<and> cap \<le> sqlite_max_int \<and>
    uuid \<notin> set (map cs_id (classes st)) \<longrightarrow>
      create_class f now uuid req st =
        (Inr \<lparr>cs_id = uuid, name = nm, instructor = ins, date_time = dt, capacity = cap\<rparr>,
         st\<lparr>classes := classes st @
           [\<lparr>cs_id = uuid, name = nm, instructor = ins, date_time = dt,
             capacity = cap\<rparr>]\<rparr>))"
proof (intro conjI impI)
  assume "fst (create_class f now uuid req st) = Inr c"
  then show "c_instructor (json req) = Some (instructor c)"
    by (rule create_class_Inr(5))
next
  assume a: "c_name (json req) = Some nm \<and> validate_class_type nm \<and>
    c_instructor (json req) = Some ins \<and>
    c_date_time (json req) = Some dts \<and> f dts = Some dt \<and> now \<le> dt \<and>
    c_capacity (json req) = Some cap \<and> 0 < cap \<and> cap \<le> sqlite_max_int \<and>
    uuid \<notin> set (map cs_id (classes st))"
  then have "create_class f now uuid req st =
     (if \<not> validate_class_type nm then (Inl InvalidClassType, st)
      else case f dts of
        None \<Rightarrow> (Inl InvalidDateFormat, st)
      | Some dt \<Rightarrow>
          if dt < now then (Inl PastSchedule, st)
          else if cap \<le> 0 then (Inl InvalidCapacity, st)
          else if sqlite_max_int < cap then (Inl (Internal OverflowError), st)
          else if uuid \<in> set (map cs_id (classes st)) then (Inl (Internal IntegrityError), st)
          else (Inr \<lparr>cs_id = uuid, name = nm, instructor = ins, date_time = dt, capacity = cap\<rparr>,
                st\<lparr>classes := classes st @
                  [\<lparr>cs_id = uuid, name = nm, instructor = ins, date_time = dt,
                    capacity = cap\<rparr>]\<rparr>))"
    by (intro create_class_checked) simp_all
  with a show "create_class f now uuid req st =
        (Inr \<lparr>cs_id = uuid, name = nm, instructor = ins, date_time = dt, capacity = cap\<rparr>,
         st\<lparr>classes := classes st @
           [\<lparr>cs_id = uuid, name = nm, instructor = ins, date_time = dt,
             capacity = cap\<rparr>]\<rparr>)"
    by simp
qed

theorem instructor_stored_as_given_witness:
  "create_class sample_fromisoformat 2 ''c1''
     (class_request ''Yoga'' [] ''2025-06-08T10:00:00'' 10) empty_store =
     (Inr \<lparr>cs_id = ''c1'', name = ''Yoga'', instructor = [], date_time = 10, capacity = 10\<rparr>,
      empty_store\<lparr>classes := classes empty_store @
        [\<lparr>cs_id = ''c1'', name = ''Yoga'', instructor = [], date_time = 10,
          capacity = 10\<rparr>]\<rparr>) \<and>
   c_instructor (json (class_request ''Yoga'' [] ''2025-06-08T10:00:00'' 10)) =
     Some (instructor \<lparr>cs_id = ''c1'', name = ''Yoga'', instructor = [], date_time = 10,
                        capacity = 10\<rparr>)"
proof -
  let ?req = "class_request ''Yoga'' [] ''2025-06-08T10:00:00'' 10"
  let ?c = "\<lparr>cs_id = ''c1'', name = ''Yoga'', instructor = [], date_time = 10, capacity = 10\<rparr>"
  have y: "validate_class_type ''Yoga''" by code_simp
  have d: "sample_fromisoformat ''2025-06-08T10:00:00'' = Some 10" by code_simp
  have k: "''c1'' \<notin> set (map cs_id (classes empty_store))" by (simp add: empty_store_def)
  have b: "(10::int) \<le> sqlite_max_int" by (simp add: sqlite_max_int_def)
  from instructor_stored_as_given[where req = ?req and nm = "''Yoga''" and ins = "[]"
      and dts = "''2025-06-08T10:00:00''" and f = sample_fromisoformat and dt = 10 and now = 2
      and cap = 10 and uuid = "''c1''" and st = empty_store and c = ?c] y d k b
  have 1: "create_class sample_fromisoformat 2 ''c1'' ?req empty_store =
     (Inr ?c, empty_store\<lparr>classes := classes empty_store @ [?c]\<rparr>)"
    by (simp add: class_request_def)
  with instructor_stored_as_given[where req = ?req and f = sample_fromisoformat and now = 2
      and uuid = "''c1''" and st = empty_store and c = ?c]
  have "c_instructor (json ?req) = Some (instructor ?c)"
    by simp
  with 1 show ?thesis by blast
qed

subsection \<open>The display timezone\<close>

text \<open>
  C8. Two requests that differ at most in the \<^verbatim>\<open>timezone\<close> query parameter have the
  same outcome, the formatted start times apart: \<open>create_booking\<close> and
  \<open>create_class\<close> give the same response and the same store, \<open>get_classes\<close> lists
  the same classes with the same capacity and available slots, and \<open>get_bookings\<close>
  fails alike or lists the same bookings.
\<close>

theorem display_timezone_noninterference:
  assumes "same_but_timezone rb rb'" and "same_but_timezone rc rc'"
    and "same_but_timezone rg rg'"
  shows "create_booking now stamp uuid rb st = create_booking now stamp uuid rb' st \<and>
         create_class f now uuid rc st = create_class f now uuid rc' st \<and>
         map_sum id (map class_row_rest) (get_classes zone_keys now rg st) =
           map_sum id (map class_row_rest) (get_classes zone_keys now rg' st) \<and>
         map_sum id (map booking_row_rest) (get_bookings zone_keys rg st) =
           map_sum id (map booking_row_rest) (get_bookings zone_keys rg' st)"
proof (intro conjI)
  from assms(1) have b: "json rb = json rb'" by (simp add: same_but_timezone_def)
  show "create_booking now stamp uuid rb st = create_booking now stamp uuid rb' st"
    unfolding create_booking_def b by (rule refl)
  from assms(2) have c: "json rc = json rc'" by (simp add: same_but_timezone_def)
  show "create_class f now uuid rc st = create_class f now uuid rc' st"
    unfolding create_class_def c by (rule refl)
  show "map_sum id (map class_row_rest) (get_classes zone_keys now rg st) =
           map_sum id (map class_row_rest) (get_classes zone_keys now rg' st)"
    by (simp only: get_classes_rest)
  from assms(3) have "args rg ''email'' = args rg' ''email''"
    by (simp add: same_but_timezone_def)
  then show "map_sum id (map booking_row_rest) (get_bookings zone_keys rg st) =
           map_sum id (map booking_row_rest) (get_bookings zone_keys rg' st)"
    by (rule get_bookings_rest)
qed

theorem display_timezone_noninterference_witness:
  "same_but_timezone (get_request [(''email'', ''john@example.com'')])
     (get_request [(''email'', ''john@example.com''), (''timezone'', ''America/New_York'')]) \<and>
   get_classes {''Asia/Kolkata'', ''America/New_York''} 4
     (get_request [(''email'', ''john@example.com'')]) booked_store \<noteq>
   get_classes {''Asia/Kolkata'', ''America/New_York''} 4
     (get_request [(''email'', ''john@example.com''), (''timezone'', ''America/New_York'')])
     booked_store \<and>
   map_sum id (map class_row_rest) (get_classes {''Asia/Kolkata'', ''America/New_York''} 4
     (get_request [(''email'', ''john@example.com'')]) booked_store) =
   map_sum id (map class_row_rest) (get_classes {''Asia/Kolkata'', ''America/New_York''} 4
     (get_request [(''email'', ''john@example.com''), (''timezone'', ''America/New_York'')])
     booked_store) \<and>
   map_sum id (map booking_row_rest) (get_bookings {''Asia/Kolkata'', ''America/New_York''}
     (get_request [(''email'', ''john@example.com'')]) booked_store) =
   map_sum id (map booking_row_rest) (get_bookings {''Asia/Kolkata'', ''America/New_York''}
     (get_request [(''email'', ''john@example.com''), (''timezone'', ''America/New_York'')])
     booked_store) \<and>
   create_booking 4 5 ''b2'' (book_request ''c1'' ''Jane Doe'' ''jane@example.com'') booked_store =
   create_booking 4 5 ''b2''
     ((book_request ''c1'' ''Jane Doe'' ''jane@example.com'')
        \<lparr>args := [''timezone'' \<mapsto> ''America/New_York'']\<rparr>) booked_store \<and>
   create_class sample_fromisoformat 4 ''b2''
     (class_request ''Zumba'' ''Jane Doe'' ''2025-06-08T10:00:00'' 5) booked_store =
   create_class sample_fromisoformat 4 ''b2''
     ((class_request ''Zumba'' ''Jane Doe'' ''2025-06-08T10:00:00'' 5)
        \<lparr>args := [''timezone'' \<mapsto> ''America/New_York'']\<rparr>) booked_store"
proof -
  let ?g = "get_request [(''email'', ''john@example.com'')]"
  let ?g' = "get_request [(''email'', ''john@example.com''), (''timezone'', ''America/New_York'')]"
  let ?b = "book_request ''c1'' ''Jane Doe'' ''jane@example.com''"
  let ?c = "class_request ''Zumba'' ''Jane Doe'' ''2025-06-08T10:00:00'' 5"
  have g: "same_but_timezone ?g ?g'"
    by (simp add: same_but_timezone_def get_request_def)
  have b: "same_but_timezone ?b (?b\<lparr>args := [''timezone'' \<mapsto> ''America/New_York'']\<rparr>)"
    by (simp add: same_but_timezone_def book_request_def)
  have c: "same_but_timezone ?c (?c\<lparr>args := [''timezone'' \<mapsto> ''America/New_York'']\<rparr>)"
    by (simp add: same_but_timezone_def class_request_def)
  have d: "get_classes {''Asia/Kolkata'', ''America/New_York''} 4 ?g booked_store \<noteq>
           get_classes {''Asia/Kolkata'', ''America/New_York''} 4 ?g' booked_store"
    by code_simp
  from display_timezone_noninterference[OF b c g, where now = 4 and stamp = 5
      and uuid = "''b2''" and st = booked_store and f = sample_fromisoformat
      and zone_keys = "{''Asia/Kolkata'', ''America/New_York''}"] g d
  show ?thesis by blast
qed

subsection \<open>A timezone that does not exist\<close>



end
